theory Spec2Isabelle
  imports Main "HOL-Library.Sublist" "HOL-Library.AList"
begin

section \<open>Go library functions the program calls\<close>

text \<open>
  A Go \<open>string\<close> is a sequence of bytes, modelled as \<open>string\<close> (a list of 8-bit
  characters).  The functions of this section are not code of the repository: they are the
  functions of Go's \<open>strings\<close> and \<open>path\<close> packages that the repository calls, written
  after the library's implementation so that the repository's own functions can be run.
\<close>

text \<open>
  The white space of \<open>unicode.IsSpace\<close>, each rune in its UTF-8 encoding: tab, line
  feed, vertical tab, form feed, carriage return, space, U+0085, U+00A0, U+1680, U+2000 to
  U+200A, U+2028, U+2029, U+202F, U+205F and U+3000.  Decoding from the front and from the
  back of a string both find such a rune exactly when the string starts, or ends, with one
  of these byte sequences.
\<close>

definition space_runes :: "string list" where
  "space_runes =
     [[CHR 0x09], [CHR 0x0A], [CHR 0x0B], [CHR 0x0C], [CHR 0x0D], [CHR 0x20],
      [CHR 0xC2, CHR 0x85], [CHR 0xC2, CHR 0xA0],
      [CHR 0xE1, CHR 0x9A, CHR 0x80],
      [CHR 0xE2, CHR 0x80, CHR 0x80], [CHR 0xE2, CHR 0x80, CHR 0x81],
      [CHR 0xE2, CHR 0x80, CHR 0x82], [CHR 0xE2, CHR 0x80, CHR 0x83],
      [CHR 0xE2, CHR 0x80, CHR 0x84], [CHR 0xE2, CHR 0x80, CHR 0x85],
      [CHR 0xE2, CHR 0x80, CHR 0x86], [CHR 0xE2, CHR 0x80, CHR 0x87],
      [CHR 0xE2, CHR 0x80, CHR 0x88], [CHR 0xE2, CHR 0x80, CHR 0x89],
      [CHR 0xE2, CHR 0x80, CHR 0x8A],
      [CHR 0xE2, CHR 0x80, CHR 0xA8], [CHR 0xE2, CHR 0x80, CHR 0xA9],
      [CHR 0xE2, CHR 0x80, CHR 0xAF],
      [CHR 0xE2, CHR 0x81, CHR 0x9F],
      [CHR 0xE3, CHR 0x80, CHR 0x80]]"

text \<open>The number of bytes of the white-space rune a string starts with (0 when none).\<close>

definition leading_space :: "string \<Rightarrow> nat" where
  "leading_space s =
     (case find (\<lambda>r. prefix r s) space_runes of None \<Rightarrow> 0 | Some r \<Rightarrow> length r)"

definition trailing_space :: "string \<Rightarrow> nat" where
  "trailing_space s =
     (case find (\<lambda>r. suffix r s) space_runes of None \<Rightarrow> 0 | Some r \<Rightarrow> length r)"

function TrimLeft :: "string \<Rightarrow> string" where
  "TrimLeft s =
     (if s = [] \<or> leading_space s = 0 then s else TrimLeft (drop (leading_space s) s))"
  by pat_completeness auto
termination
  by (relation "measure length") auto

declare TrimLeft.simps [simp del]

function TrimRight :: "string \<Rightarrow> string" where
  "TrimRight s =
     (if s = [] \<or> trailing_space s = 0 then s
      else TrimRight (take (length s - trailing_space s) s))"
  by pat_completeness auto
termination
  by (relation "measure length") auto

declare TrimRight.simps [simp del]

text \<open>\<open>strings.TrimSpace\<close>: all leading and trailing white space removed.\<close>

definition TrimSpace :: "string \<Rightarrow> string" where
  "TrimSpace s = TrimRight (TrimLeft s)"

text \<open>\<open>strings.Index(s, c)\<close> for a one-byte separator: the first position, or -1.\<close>

fun Index :: "string \<Rightarrow> char \<Rightarrow> int" where
  "Index [] c = -1"
| "Index (x # xs) c =
     (if x = c then 0 else (let i = Index xs c in if i < 0 then -1 else i + 1))"

text \<open>\<open>strings.Split(s, c)\<close> for a one-byte separator: never the empty list.\<close>

fun Split :: "string \<Rightarrow> char \<Rightarrow> string list" where
  "Split [] c = [[]]"
| "Split (x # xs) c =
     (if x = c then [] # Split xs c
      else (case Split xs c of [] \<Rightarrow> [[x]] | y # ys \<Rightarrow> (x # y) # ys))"

text \<open>\<open>strings.HasPrefix(s, p)\<close>.\<close>

definition HasPrefix :: "string \<Rightarrow> string \<Rightarrow> bool" where
  "HasPrefix s p = prefix p s"

subsection \<open>\<open>path.Clean\<close> and \<open>path.Join\<close>\<close>

text \<open>
  The ``..'' case of \<open>Clean\<close>: the write index drops by one, then moves back while it is
  above \<open>dotdot\<close> and the byte under it is not a slash.
\<close>

fun backtrack :: "nat \<Rightarrow> string \<Rightarrow> nat \<Rightarrow> nat" where
  "backtrack dotdot out w =
     (if w > dotdot \<and> out ! w \<noteq> CHR ''/'' then backtrack dotdot out (w - 1) else w)"

declare backtrack.simps [simp del]

text \<open>
  The main loop of \<open>Clean\<close>.  \<open>out\<close> is the output buffer up to its write index, the last
  argument is what is left of the input.
\<close>

function Clean_loop :: "bool \<Rightarrow> nat \<Rightarrow> string \<Rightarrow> string \<Rightarrow> string" where
  "Clean_loop rooted dotdot out [] = out"
| "Clean_loop rooted dotdot out (c # rest) =
     (if c = CHR ''/'' then Clean_loop rooted dotdot out rest
      else if c = CHR ''.'' \<and> (case rest of [] \<Rightarrow> True | d # _ \<Rightarrow> d = CHR ''/'')
        then Clean_loop rooted dotdot out rest
      else if c = CHR ''.'' \<and>
              (case rest of [] \<Rightarrow> False
               | d # rest' \<Rightarrow> d = CHR ''.'' \<and>
                   (case rest' of [] \<Rightarrow> True | e # _ \<Rightarrow> e = CHR ''/''))
        then
          (if length out > dotdot
             then Clean_loop rooted dotdot
                    (take (backtrack dotdot out (length out - 1)) out) (tl rest)
           else if \<not> rooted
             then (let out' = (if length out > 0 then out @ ''/'' else out) @ ''..''
                   in Clean_loop rooted (length out') out' (tl rest))
           else Clean_loop rooted dotdot out (tl rest))
      else
        (let out' = (if (rooted \<and> length out \<noteq> 1) \<or> (\<not> rooted \<and> length out \<noteq> 0)
                     then out @ ''/'' else out)
         in Clean_loop rooted dotdot
              (out' @ takeWhile (\<lambda>x. x \<noteq> CHR ''/'') (c # rest))
              (dropWhile (\<lambda>x. x \<noteq> CHR ''/'') (c # rest))))"
  by pat_completeness auto
termination
proof (relation "measure (\<lambda>(rooted, dotdot, out, p). length p)", goal_cases)
  case (7 rooted dotdot out c rest x)
  have "length (dropWhile (\<lambda>x. x \<noteq> CHR ''/'') rest) \<le> length rest"
    by (rule length_dropWhile_le)
  with 7(1) show ?case
    by (simp (no_asm_simp))
qed (simp_all (no_asm))

definition Clean :: "string \<Rightarrow> string" where
  "Clean p =
     (if p = [] then ''.''
      else
        (let rooted = (hd p = CHR ''/'');
             out = (if rooted
                    then Clean_loop True 1 ''/'' (tl p)
                    else Clean_loop False 0 [] p)
         in if out = [] then ''.'' else out))"

text \<open>\<open>path.Join\<close>: the non-empty elements joined by slashes, then cleaned.\<close>

fun Join_buf :: "string \<Rightarrow> string list \<Rightarrow> string" where
  "Join_buf buf [] = buf"
| "Join_buf buf (e # es) =
     (if length buf > 0 \<or> e \<noteq> []
      then Join_buf ((if length buf > 0 then buf @ ''/'' else buf) @ e) es
      else Join_buf buf es)"

definition Join :: "string list \<Rightarrow> string" where
  "Join elem = (if sum_list (map length elem) = 0 then [] else Clean (Join_buf [] elem))"

section \<open>Errors\<close>

text \<open>
  An \<open>error\<close> value of Go carries its message.  \<open>log.Fatal\<close> ends the process and a nil
  dereference panics; both are results of their own, so that no path of the code is lost.
\<close>

datatype error =
    Err string
  | Fatal string
  | Panic_nil_dereference

section \<open>http.go: CleanPath\<close>

definition CleanPath :: "string \<Rightarrow> string \<Rightarrow> error + string" where
  "CleanPath root uri =
     (let root = TrimSpace root in
      if root = [] then Inl (Fatal ''docroot MUST be set'')
      else
        (let npath = Join [root, TrimSpace uri] in
         if \<not> HasPrefix npath root then Inl (Err ''URI escaped from root'')
         else Inr npath))"

text \<open>
  What ``inside the docroot directory'' means for a cleaned path: the directory itself, or a
  path that continues it after a slash (the slash that ends the root when the root is
  \<open>/\<close>).
\<close>

definition within_docroot :: "string \<Rightarrow> string \<Rightarrow> bool" where
  "within_docroot root p =
     (p = root \<or>
      prefix (if root \<noteq> [] \<and> last root = CHR ''/'' then root else root @ ''/'') p)"

section \<open>conn.go and http.go: connections and Close\<close>

text \<open>
  The socket behind a connection (\<open>net.Conn\<close>).  \<open>close_calls\<close> counts the calls of its
  \<open>Close\<close>; \<open>write_fails\<close> is the environment's part: whether a write on the socket
  fails (the peer has gone).  Closing a closed socket returns an error; of its message,
  which in Go also names the operation and the two addresses, only the cause is kept.
\<close>

record net_Conn =
  closed :: bool
  close_calls :: nat
  write_fails :: bool
  sent :: string

definition Conn_Close :: "net_Conn \<Rightarrow> error option \<times> net_Conn" where
  "Conn_Close c =
     ((if closed c then Some (Err ''use of closed network connection'') else None),
      c\<lparr>closed := True, close_calls := Suc (close_calls c)\<rparr>)"

definition Conn_Write :: "string \<Rightarrow> net_Conn \<Rightarrow> error option \<times> net_Conn" where
  "Conn_Write bs c =
     (if closed c then (Some (Err ''use of closed network connection''), c)
      else if write_fails c then (Some (Err ''write: broken pipe''), c)
      else (None, c\<lparr>sent := sent c @ bs\<rparr>))"

text \<open>
  \<open>TcpConnection\<close>: the socket, the bytes waiting in the \<open>bufio.Writer\<close> and the \<open>alive\<close>
  flag (the reader plays no part in \<open>Close\<close>).
\<close>

record TcpConnection =
  Conn :: net_Conn
  BWriter :: string
  alive :: bool

text \<open>\<open>WrapTcpConnection\<close>.\<close>

definition WrapTcpConnection :: "net_Conn \<Rightarrow> error + TcpConnection" where
  "WrapTcpConnection conn = Inr \<lparr>Conn = conn, BWriter = [], alive = True\<rparr>"

text \<open>
  \<open>bufio.Writer.Flush\<close>: nothing to do on an empty buffer, else one write, which takes
  all the bytes or fails.  A socket that fails a write fails every later one, so the error
  the writer remembers from an earlier failed write needs no field of its own.
\<close>

definition Flush :: "TcpConnection \<Rightarrow> error option \<times> TcpConnection" where
  "Flush c =
     (if BWriter c = [] then (None, c)
      else (case Conn_Write (BWriter c) (Conn c) of
              (Some e, k) \<Rightarrow> (Some e, c\<lparr>Conn := k\<rparr>)
            | (None, k) \<Rightarrow> (None, c\<lparr>Conn := k, BWriter := []\<rparr>)))"

text \<open>\<open>err.Error()\<close>.\<close>

fun Error :: "error \<Rightarrow> string" where
  "Error (Err m) = m"
| "Error (Fatal m) = m"
| "Error Panic_nil_dereference = ''invalid memory address or nil pointer dereference''"

text \<open>
  \<open>TcpConnection.Close\<close>: the returned error, the connection afterwards, and the lines
  written to the error log.
\<close>

definition TcpConnection_Close ::
  "TcpConnection \<Rightarrow> error option \<times> TcpConnection \<times> string list" where
  "TcpConnection_Close c =
     (if \<not> alive c then (Some (Err ''TcpConnection already closed''), c, [])
      else
        (let c = c\<lparr>alive := False\<rparr>;
             (err, c) = Flush c;
             logged = (case err of None \<Rightarrow> [] | Some e \<Rightarrow> [''failed flush: '' @ Error e]);
             (cerr, k) = Conn_Close (Conn c)
         in (cerr, c\<lparr>Conn := k\<rparr>, logged)))"

text \<open>
  \<open>HttpConnection\<close> (the \<open>Service\<close> field is the name of the service) and its \<open>Close\<close>:
  a hard close, which hands every call to the socket.
\<close>

record HttpConnection =
  conn :: net_Conn
  HBWriter :: string
  Service :: string

definition HttpConnection_Close :: "HttpConnection \<Rightarrow> error option \<times> HttpConnection" where
  "HttpConnection_Close h = (case Conn_Close (conn h) of (err, k) \<Rightarrow> (err, h\<lparr>conn := k\<rparr>))"

section \<open>The operating system and the network\<close>

text \<open>
  What the program asks of its environment is a parameter of the model: \<open>os.Stat\<close>,
  \<open>os.Open\<close> with what reading the file gives, whether an address can be bound
  (\<open>net.ListenTCP\<close>) and what a dial returns (\<open>net.DialTimeout\<close>).  A \<open>time.Time\<close> is
  a number of nanoseconds since the epoch.
\<close>

record FileInfo =
  IsDir :: bool
  ModTime :: int

text \<open>
  An open file: its contents, and the number of reads that succeed before a read fails with
  an error other than end of file (\<open>None\<close>: no read fails).
\<close>

record os_File =
  contents :: string
  read_error_after :: "nat option"

record os =
  os_Stat :: "string \<Rightarrow> error + FileInfo"
  os_Open :: "string \<Rightarrow> error + os_File"
  net_Listen :: "string \<Rightarrow> error option"
  net_Dial :: "string \<Rightarrow> error + net_Conn"

text \<open>\<open>ioutil.ReadAll\<close>.\<close>

definition ReadAll :: "os_File \<Rightarrow> error + string" where
  "ReadAll f =
     (case read_error_after f of None \<Rightarrow> Inr (contents f) | Some k \<Rightarrow> Inl (Err ''read error''))"

text \<open>
  What successive calls of \<open>bufio.Reader.ReadString\<close>, with the line feed as the
  delimiter, return on given contents: every
  line with its line feed, and last what follows the last line feed (maybe nothing),
  returned together with end of file.
\<close>

fun ReadString_all :: "string \<Rightarrow> string list" where
  "ReadString_all [] = [[]]"
| "ReadString_all (c # cs) =
     (if c = CHR 0x0A then [c] # ReadString_all cs
      else (case ReadString_all cs of [] \<Rightarrow> [[c]] | l # ls \<Rightarrow> (c # l) # ls))"

section \<open>Channels\<close>

text \<open>
  A channel variable is nil (\<open>None\<close>) or a channel made with a capacity, holding the values
  sent and not yet received.  A send or a receive on a nil channel blocks forever; on a
  channel it proceeds when there is room, or something to take, and otherwise waits for the
  other side.
\<close>

record 'a chan =
  chan_cap :: nat
  chan_buf :: "'a list"

datatype 'a chan_op = Blocks_forever | Blocks | Proceeds 'a

definition send :: "'a \<Rightarrow> 'a chan option \<Rightarrow> 'a chan option chan_op" where
  "send v ch =
     (case ch of
        None \<Rightarrow> Blocks_forever
      | Some q \<Rightarrow>
          if length (chan_buf q) < chan_cap q
          then Proceeds (Some (q\<lparr>chan_buf := chan_buf q @ [v]\<rparr>))
          else Blocks)"

definition recv :: "'a chan option \<Rightarrow> ('a \<times> 'a chan option) chan_op" where
  "recv ch =
     (case ch of
        None \<Rightarrow> Blocks_forever
      | Some q \<Rightarrow>
          (case chan_buf q of
             [] \<Rightarrow> Blocks
           | v # vs \<Rightarrow> Proceeds (v, Some (q\<lparr>chan_buf := vs\<rparr>))))"

section \<open>listener.go\<close>

text \<open>The acceptor of a listener is the \<open>Accept\<close> method of a service, named here.\<close>

datatype AcceptorFunc = Accept_of string

record TcpListener =
  Listener_alive :: bool
  ipport :: string
  socket_open :: bool

text \<open>
  \<open>ListenTcp\<close> (the accept loop it starts is a goroutine of its own and not part of the
  returned value).
\<close>

definition ListenTcp :: "os \<Rightarrow> string \<Rightarrow> AcceptorFunc \<Rightarrow> error + TcpListener" where
  "ListenTcp env addr acceptor =
     (case net_Listen env addr of
        Some err \<Rightarrow> Inl err
      | None \<Rightarrow> Inr \<lparr>Listener_alive = True, ipport = addr, socket_open = True\<rparr>)"

text \<open>
  \<open>TcpListener.Close\<close> on a \<open>*TcpListener\<close>, which may be nil: the method reads
  \<open>l.socket\<close> first, so a nil receiver panics.
\<close>

definition TcpListener_Close :: "TcpListener option \<Rightarrow> error + TcpListener" where
  "TcpListener_Close l =
     (case l of
        None \<Rightarrow> Inl Panic_nil_dereference
      | Some t \<Rightarrow> Inr (t\<lparr>Listener_alive := False, socket_open := False\<rparr>))"

section \<open>HTTP requests and responses\<close>

record http_Request =
  RequestURI :: string

record http_Response =
  Request :: http_Request
  Status :: string
  StatusCode :: int
  ContentLength :: int
  Body :: string

definition StatusForCode :: "int \<Rightarrow> string" where
  "StatusForCode status =
     (if status = 200 then ''OK''
      else if status = 500 then ''Internal Server Error''
      else ''Unknown'')"

definition HttpSimpleResponse :: "http_Request \<Rightarrow> int \<Rightarrow> string \<Rightarrow> http_Response" where
  "HttpSimpleResponse req status body =
     \<lparr>Request = req, Status = StatusForCode status, StatusCode = status,
      ContentLength = int (length body), Body = body\<rparr>"

definition HttpErrorResponse :: "http_Request \<Rightarrow> error \<Rightarrow> http_Response" where
  "HttpErrorResponse req err = HttpSimpleResponse req 500 (''Failure: '' @ Error err)"

section \<open>pool.go and http\_backend.go\<close>

record HttpBackendConnection =
  BConn :: TcpConnection
  Client :: "HttpConnection option"

text \<open>The mutex of a backend makes each locked section one step; it has no field here.\<close>

record Backend =
  Ipport :: string
  connecting :: "HttpBackendConnection option"
  outstanding :: int
  generation :: int

record Pool =
  Pool_Name :: string
  backends :: "Backend list"
  backendQueue :: "HttpBackendConnection chan option"
  nodeFile :: string
  Pool_generation :: int

text \<open>
  \<open>MakeTcpConnection\<close> and \<open>MakeHttpBackend\<close>.  The second component is the list of
  addresses dialled so far, one entry for each call of \<open>net.DialTimeout\<close>.
\<close>

definition MakeTcpConnection ::
  "os \<Rightarrow> string \<Rightarrow> string list \<Rightarrow> (error + TcpConnection) \<times> string list" where
  "MakeTcpConnection env addr dialled =
     ((case net_Dial env addr of
         Inl err \<Rightarrow> Inl err
       | Inr k \<Rightarrow> WrapTcpConnection k),
      dialled @ [addr])"

definition MakeHttpBackend ::
  "os \<Rightarrow> Backend \<Rightarrow> string list \<Rightarrow> error option \<times> string list" where
  "MakeHttpBackend env be dialled =
     (case MakeTcpConnection env (Ipport be) dialled of
        (Inl err, d) \<Rightarrow> (Some err, d)
      | (Inr k, d) \<Rightarrow> (None, d))"

text \<open>
  \<open>Backend.Connect\<close>.  The state is the backend, the number of goroutines started by
  \<open>Connect\<close> that have not run yet, and the addresses dialled so far.  \<open>Connect\<close> holds the
  mutex from its first statement to its return, and the goroutine holds it around its whole
  body, so each of the two is one step.  The body of the goroutine is empty: the call of
  \<open>MakeHttpBackend\<close> is commented out in the source.
\<close>

record connect_state =
  backend :: Backend
  started :: nat
  dialled :: "string list"

definition Connect :: "connect_state \<Rightarrow> connect_state" where
  "Connect w =
     (if connecting (backend w) \<noteq> None then w
      else w\<lparr>started := Suc (started w)\<rparr>)"

definition Connect_goroutine :: "connect_state \<Rightarrow> connect_state" where
  "Connect_goroutine w = w\<lparr>started := started w - 1\<rparr>"

text \<open>
  A schedule: calls of \<open>Connect\<close> and runs of started goroutines, in the order in which
  they take the mutex.  A goroutine runs only if one has been started.
\<close>

datatype connect_event = Call_Connect | Run_goroutine

fun connect_step :: "connect_state \<Rightarrow> connect_event \<Rightarrow> connect_state" where
  "connect_step w Call_Connect = Connect w"
| "connect_step w Run_goroutine = (if started w = 0 then w else Connect_goroutine w)"

definition connect_run :: "connect_event list \<Rightarrow> connect_state \<Rightarrow> connect_state" where
  "connect_run evs w = foldl connect_step w evs"

text \<open>\<open>Pool.GetBackend\<close>, on a \<open>*Pool\<close> that may be nil.\<close>

definition GetBackend :: "Pool option \<Rightarrow> HttpBackendConnection option" where
  "GetBackend p = None"

subsection \<open>The node file worker\<close>

text \<open>
  The first statements of the body of the \<open>LINE\<close> loop of \<open>updateNodeFileWorker\<close>: what a
  line read from the node file gives, \<open>None\<close> when the line is skipped.
\<close>

definition nodefile_address :: "string \<Rightarrow> string option" where
  "nodefile_address raw =
     (let line = TrimSpace raw;
          idx = Index line (CHR ''#'');
          line = (if idx > -1 then take (nat idx) line else line)
      in if length line < 7 then None else Some line)"

text \<open>
  The loop over \<open>p.backends\<close>: the first backend with this address is stamped with the new
  generation; \<open>None\<close> when no backend has it.
\<close>

fun refresh :: "string \<Rightarrow> int \<Rightarrow> Backend list \<Rightarrow> Backend list option" where
  "refresh line newgen [] = None"
| "refresh line newgen (bstruct # bs) =
     (if Ipport bstruct = line then Some (bstruct\<lparr>generation := newgen\<rparr> # bs)
      else (case refresh line newgen bs of None \<Rightarrow> None | Some bs' \<Rightarrow> Some (bstruct # bs')))"

text \<open>The whole body of the \<open>LINE\<close> loop, for one line.\<close>

definition nodefile_line :: "int \<Rightarrow> Backend list \<Rightarrow> string \<Rightarrow> Backend list" where
  "nodefile_line newgen bs raw =
     (case nodefile_address raw of
        None \<Rightarrow> bs
      | Some line \<Rightarrow>
          (case refresh line newgen bs of
             Some bs' \<Rightarrow> bs'
           | None \<Rightarrow>
               bs @ [\<lparr>Ipport = line, connecting = None, outstanding = 0,
                      generation = newgen\<rparr>]))"

text \<open>The lines the \<open>LINE\<close> loop gets to see before end of file or a failed read.\<close>

definition nodefile_lines :: "os_File \<Rightarrow> string list" where
  "nodefile_lines f =
     (case read_error_after f of
        None \<Rightarrow> ReadString_all (contents f)
      | Some k \<Rightarrow> take k (ReadString_all (contents f)))"

text \<open>
  One turn of the outer loop of \<open>updateNodeFileWorker\<close>, from the pool and the \<open>mtime\<close>
  variable to the pool and \<open>mtime\<close> at the end of the turn.  The turn ends at a
  \<open>continue\<close> (the next turn starts at once) or at the sleep of ten seconds.  Generations
  are unbounded integers here; Go's \<open>int\<close> would wrap around at its largest value, which
  no pass comes near, the generation of the pool never being stored.
\<close>

datatype turn_end = Continue | Slept

definition updateNodeFileWorker_turn :: "os \<Rightarrow> int \<Rightarrow> Pool \<Rightarrow> Pool \<times> int \<times> turn_end" where
  "updateNodeFileWorker_turn env mtime p =
     (case os_Stat env (nodeFile p) of
        Inl err \<Rightarrow> (p, mtime, Continue)
      | Inr fi \<Rightarrow>
          (let newmtime = ModTime fi in
           if \<not> newmtime > mtime then (p, mtime, Continue)
           else
             (let mtime = newmtime;
                  newgen = Pool_generation p + 1
              in case os_Open env (nodeFile p) of
                   Inl err \<Rightarrow> (p, mtime, Continue)
                 | Inr fobj \<Rightarrow>
                     (p\<lparr>backends := foldl (nodefile_line newgen) (backends p)
                                       (nodefile_lines fobj)\<rparr>,
                      mtime, Slept))))"

section \<open>service.go\<close>

datatype ServiceRole = ROLE_WEBSERVER | ROLE_PROXY | ROLE_MANAGE

text \<open>
  A \<open>ServiceRequest\<close>.  The response channel \<open>rchan\<close> is a reference: the number names the
  channel.
\<close>

record ServiceRequest =
  client :: HttpConnection
  request :: http_Request
  rchan :: nat

record ServiceListener =
  Listener :: "TcpListener option"
  Acceptor :: AcceptorFunc

text \<open>
  A \<open>Service\<close>.  The map \<open>Listeners\<close> is a list of pairs with distinct keys, in the order
  in which a \<open>range\<close> loop visits it; its values are pointers and may be nil.  \<open>Pool\<close> is the
  name of the pool it points to, or nil.
\<close>

record Service =
  Name :: string
  Enabled :: bool
  Role :: ServiceRole
  Listeners :: "(string \<times> ServiceListener option) list"
  DocRoot :: string
  Pool :: "string option"
  requestQueue :: "ServiceRequest chan option"

text \<open>The goroutines started when a service or a pool is made.\<close>

datatype goroutine = Go_requestPump string | Go_updateNodeFileWorker string

text \<open>
  The two process-wide registries and the goroutines started so far.  Each of \<open>NewService\<close>
  and \<open>NewPool\<close> runs under its registry's lock, so it is one step.
\<close>

record globals =
  services :: "string \<rightharpoonup> Service"
  pools :: "string \<rightharpoonup> Pool"
  goroutines :: "goroutine list"

definition quoted :: "string \<Rightarrow> string" where
  "quoted name = [CHR 0x27] @ name @ [CHR 0x27]"

definition NewService :: "string \<Rightarrow> globals \<Rightarrow> (error + Service) \<times> globals" where
  "NewService name g =
     (case services g name of
        Some _ \<Rightarrow> (Inl (Err (''service '' @ quoted name @ '' already exists'')), g)
      | None \<Rightarrow>
          (let s = \<lparr>Name = name, Enabled = False, Role = ROLE_WEBSERVER, Listeners = [],
                    DocRoot = [], Pool = None, requestQueue = None\<rparr>
           in (Inr s,
               g\<lparr>services := (services g)(name \<mapsto> s),
                 goroutines := goroutines g @ [Go_requestPump name]\<rparr>)))"

definition NewPool :: "string \<Rightarrow> globals \<Rightarrow> (error + Pool) \<times> globals" where
  "NewPool name g =
     (case pools g name of
        Some _ \<Rightarrow> (Inl (Err (''pool '' @ quoted name @ '' already exists'')), g)
      | None \<Rightarrow>
          (let p = \<lparr>Pool_Name = name, backends = [],
                    backendQueue = Some \<lparr>chan_cap = 1000, chan_buf = []\<rparr>,
                    nodeFile = [], Pool_generation = 0\<rparr>
           in (Inr p,
               g\<lparr>pools := (pools g)(name \<mapsto> p),
                 goroutines := goroutines g @ [Go_updateNodeFileWorker name]\<rparr>)))"

subsection \<open>serveFile, requestPump and HandleRequest\<close>

text \<open>
  \<open>serveFile\<close>: the one send it makes, as the channel and the response; \<open>Inl\<close> when
  \<open>CleanPath\<close> ends the process.
\<close>

definition serveFile :: "os \<Rightarrow> Service \<Rightarrow> ServiceRequest \<Rightarrow> error + (nat \<times> http_Response)" where
  "serveFile env s req =
     (case CleanPath (DocRoot s) (RequestURI (request req)) of
        Inl (Fatal m) \<Rightarrow> Inl (Fatal m)
      | Inl err \<Rightarrow> Inr (rchan req, HttpErrorResponse (request req) err)
      | Inr filepath \<Rightarrow>
          (case os_Stat env filepath of
             Inl err \<Rightarrow> Inr (rchan req, HttpErrorResponse (request req) err)
           | Inr fi \<Rightarrow>
               (let filepath = (if IsDir fi then Join [filepath, ''index.html''] else filepath)
                in case os_Open env filepath of
                     Inl err \<Rightarrow> Inr (rchan req, HttpErrorResponse (request req) err)
                   | Inr f \<Rightarrow>
                       (case ReadAll f of
                          Inl err \<Rightarrow> Inr (rchan req, HttpErrorResponse (request req) err)
                        | Inr rd \<Rightarrow> Inr (rchan req, HttpSimpleResponse (request req) 200 rd)))))"

text \<open>
  \<open>requestPump\<close>, as a function of the requests it receives from the queue, in order.  It
  ends by returning, or waits for the next request when it has taken them all.  The result
  also holds the requests left in the queue, the requests for which a \<open>serveFile\<close>
  goroutine was started, and the responses the pump itself sent, each with its channel.
\<close>

datatype pump_end = Pump_returned | Pump_waits | Pump_blocked_forever

record pump_result =
  ended :: pump_end
  left :: "ServiceRequest list"
  serving :: "ServiceRequest list"
  delivered :: "(nat \<times> http_Response) list"

fun requestPump_loop :: "(string \<rightharpoonup> Pool) \<Rightarrow> Service \<Rightarrow> ServiceRequest list \<Rightarrow> pump_result" where
  "requestPump_loop ps s [] =
     \<lparr>ended = Pump_waits, left = [], serving = [], delivered = []\<rparr>"
| "requestPump_loop ps s (req # queue) =
     (if Role s = ROLE_WEBSERVER
        then \<lparr>ended = Pump_returned, left = queue, serving = [req], delivered = []\<rparr>
      else if Role s \<noteq> ROLE_PROXY
        then \<lparr>ended = Pump_returned, left = queue, serving = [],
              delivered = [(rchan req,
                            HttpErrorResponse (request req) (Err ''Invalid service type''))]\<rparr>
      else
        (let be = GetBackend (case Pool s of None \<Rightarrow> None | Some n \<Rightarrow> ps n)
         in requestPump_loop ps s queue))"

definition requestPump :: "(string \<rightharpoonup> Pool) \<Rightarrow> Service \<Rightarrow> pump_result" where
  "requestPump ps s =
     (case requestQueue s of
        None \<Rightarrow> \<lparr>ended = Pump_blocked_forever, left = [], serving = [], delivered = []\<rparr>
      | Some q \<Rightarrow> requestPump_loop ps s (chan_buf q))"

text \<open>\<open>HandleRequest\<close>: the send on the request queue, then the nil error.\<close>

definition HandleRequest ::
  "Service \<Rightarrow> HttpConnection \<Rightarrow> http_Request \<Rightarrow> nat \<Rightarrow> (error option \<times> Service) chan_op" where
  "HandleRequest s c req rc =
     (case send \<lparr>client = c, request = req, rchan = rc\<rparr> (requestQueue s) of
        Blocks_forever \<Rightarrow> Blocks_forever
      | Blocks \<Rightarrow> Blocks
      | Proceeds q \<Rightarrow> Proceeds (None, s\<lparr>requestQueue := q\<rparr>))"

subsection \<open>Enable, setListen and Set\<close>

text \<open>
  The loop of \<open>Enable\<close> over the listeners.  \<open>Inl\<close> is a panic; the error that \<open>Enable\<close>
  returns is always nil.
\<close>

fun Enable_loop ::
  "os \<Rightarrow> (string \<times> ServiceListener option) list \<Rightarrow>
   error + (string \<times> ServiceListener option) list" where
  "Enable_loop env [] = Inr []"
| "Enable_loop env ((addr, lstnr) # rest) =
     (case lstnr of
        None \<Rightarrow> Inl Panic_nil_dereference
      | Some sl \<Rightarrow>
          (let lstnr' =
                 (if Listener sl \<noteq> None then lstnr
                  else (case ListenTcp env addr (Acceptor sl) of
                          Inl err \<Rightarrow> lstnr
                        | Inr tlstnr \<Rightarrow> Some (sl\<lparr>Listener := Some tlstnr\<rparr>)))
           in case Enable_loop env rest of
                Inl e \<Rightarrow> Inl e
              | Inr rest' \<Rightarrow> Inr ((addr, lstnr') # rest')))"

definition Enable :: "os \<Rightarrow> Service \<Rightarrow> error + (error option \<times> Service)" where
  "Enable env s =
     (case Enable_loop env (Listeners s) of
        Inl e \<Rightarrow> Inl e
      | Inr ls \<Rightarrow> Inr (None, s\<lparr>Listeners := ls, Enabled := True\<rparr>))"

text \<open>
  The first loop of \<open>setListen\<close>: every listener that is not nil has the \<open>Close\<close> of its
  \<open>Listener\<close> field called, and every entry is deleted.  \<open>Inl\<close> is a panic.
\<close>

fun setListen_close :: "(string \<times> ServiceListener option) list \<Rightarrow> error + unit" where
  "setListen_close [] = Inr ()"
| "setListen_close ((addr, lstnr) # rest) =
     (case lstnr of
        None \<Rightarrow> setListen_close rest
      | Some sl \<Rightarrow>
          (case TcpListener_Close (Listener sl) of
             Inl e \<Rightarrow> Inl e
           | Inr _ \<Rightarrow> setListen_close rest))"

definition setListen ::
  "os \<Rightarrow> string \<Rightarrow> AcceptorFunc \<Rightarrow> Service \<Rightarrow> error + (error option \<times> Service)" where
  "setListen env val acceptor s =
     (case setListen_close (Listeners s) of
        Inl e \<Rightarrow> Inl e
      | Inr _ \<Rightarrow>
          (let s = s\<lparr>Listeners :=
                       foldl (\<lambda>ls addr.
                                AList.update (TrimSpace addr)
                                  (Some \<lparr>Listener = None, Acceptor = acceptor\<rparr>) ls)
                         [] (Split val (CHR '',''))\<rparr>
           in if Enabled s
              then (case Enable env s of Inl e \<Rightarrow> Inl e | Inr (_, s') \<Rightarrow> Inr (None, s'))
              else Inr (None, s)))"

text \<open>\<open>Service.Set\<close>, given the pool registry.\<close>

definition Service_Set ::
  "os \<Rightarrow> (string \<rightharpoonup> Pool) \<Rightarrow> string \<Rightarrow> string \<Rightarrow> Service \<Rightarrow>
   error + (error option \<times> Service)" where
  "Service_Set env ps key val s =
     (if key = ''listen'' then setListen env val (Accept_of (Name s)) s
      else if key = ''role'' then
        (if val = ''web_server'' then Inr (None, s\<lparr>Role := ROLE_WEBSERVER\<rparr>)
         else if val = ''management'' then Inr (None, s\<lparr>Role := ROLE_MANAGE\<rparr>)
         else if val = ''reverse_proxy'' then Inr (None, s\<lparr>Role := ROLE_PROXY\<rparr>)
         else Inr (Some (Err (''invalid role '' @ quoted val)), s))
      else if key = ''docroot'' then
        (let val = Clean (TrimSpace val) in
         case os_Stat env val of
           Inl err \<Rightarrow> Inr (Some err, s)
         | Inr fi \<Rightarrow>
             if \<not> IsDir fi
             then Inr (Some (Err (''docroot: '' @ val @ '' is not a directory'')), s)
             else Inr (None, s\<lparr>DocRoot := val\<rparr>))
      else if key = ''pool'' then
        (case ps val of
           None \<Rightarrow> Inr (Some (Err (''pool '' @ quoted val @ '' not found'')), s)
         | Some pool \<Rightarrow> Inr (None, s\<lparr>Pool := Some val\<rparr>))
      else Inr (None, s))"

text \<open>An entry of \<open>Listeners\<close> that is not nil and whose \<open>Listener\<close> field is nil.\<close>

definition unbound :: "string \<times> ServiceListener option \<Rightarrow> bool" where
  "unbound e = (case snd e of None \<Rightarrow> False | Some sl \<Rightarrow> Listener sl = None)"

text \<open>The registries when the program starts: both maps are made empty.\<close>

definition globals0 :: globals where
  "globals0 = \<lparr>services = Map.empty, pools = Map.empty, goroutines = []\<rparr>"

section \<open>Properties\<close>

subsection \<open>CleanPath\<close>

lemma CleanPath_Inr_prefix:
  assumes "CleanPath root uri = Inr p"
  shows "prefix (TrimSpace root) p"
  using assms
  by (simp add: CleanPath_def HasPrefix_def Let_def split: if_splits)

text \<open>
  C7, as amended.  \<open>CleanPath\<close> trims the root before anything else, so the prefix it
  guarantees is the trimmed root, not the root as passed.  When it returns a path, the
  trimmed root is a prefix of that path as a string, and that is all: for root
  \<open>/srv/www\<close> and URI \<open>/../www-secret/x\<close> it returns \<open>/srv/www-secret/x\<close>, a path
  outside the directory \<open>/srv/www\<close>.
\<close>

theorem CleanPath_prefix_only:
  "(CleanPath root uri = Inr p \<longrightarrow> prefix (TrimSpace root) p) \<and>
   CleanPath ''/srv/www'' ''/../www-secret/x'' = Inr ''/srv/www-secret/x'' \<and>
   \<not> within_docroot ''/srv/www'' ''/srv/www-secret/x''"
proof (intro conjI impI)
  assume "CleanPath root uri = Inr p"
  then show "prefix (TrimSpace root) p"
    by (rule CleanPath_Inr_prefix)
next
  show "CleanPath ''/srv/www'' ''/../www-secret/x'' = Inr ''/srv/www-secret/x''"
    by code_simp
next
  show "\<not> within_docroot ''/srv/www'' ''/srv/www-secret/x''"
    by (simp add: within_docroot_def)
qed

theorem CleanPath_prefix_only_witness:
  "CleanPath '' /srv/www'' ''/a/../b/'' = Inr ''/srv/www/b'' \<and>
   prefix (TrimSpace '' /srv/www'') ''/srv/www/b''"
proof -
  have ok: "CleanPath '' /srv/www'' ''/a/../b/'' = Inr ''/srv/www/b''"
    by code_simp
  with CleanPath_prefix_only [of "'' /srv/www''" "''/a/../b/''" "''/srv/www/b''"]
  show ?thesis
    by blast
qed

text \<open>
  The claim as stated, with the root as passed, fails: for the root \<open>/srv/www\<close> followed
  by a space, \<open>CleanPath\<close> returns \<open>/srv/www/x\<close>, of which that root is no prefix.
\<close>

theorem CleanPath_untrimmed_root_counterexample:
  "CleanPath ''/srv/www '' ''/x'' = Inr ''/srv/www/x'' \<and>
   \<not> prefix ''/srv/www '' ''/srv/www/x''"
  by code_simp

subsection \<open>Closing connections\<close>

text \<open>
  C8, as amended.  A \<open>TcpConnection\<close> that is alive is closed twice.  The second call
  logs nothing, returns the already-closed error and leaves the connection, with its socket,
  as the first call left it: the socket's \<open>Close\<close> has been called once, and the socket is
  closed.  The first call flushes: when the buffer is empty or the socket takes the write,
  the buffered bytes are sent and nothing is logged; otherwise nothing is sent, one line is
  logged, and the socket is closed all the same.  \<open>HttpConnection.Close\<close> is a hard
  close: every call goes to the socket's \<open>Close\<close>, it returns what the socket returns, and
  the bytes buffered for writing stay where they are.
\<close>

theorem TcpConnection_Close_twice:
  "(alive c \<longrightarrow>
      snd (snd (TcpConnection_Close (fst (snd (TcpConnection_Close c))))) = [] \<and>
      fst (TcpConnection_Close (fst (snd (TcpConnection_Close c)))) =
        Some (Err ''TcpConnection already closed'') \<and>
      fst (snd (TcpConnection_Close (fst (snd (TcpConnection_Close c))))) =
        fst (snd (TcpConnection_Close c)) \<and>
      close_calls (Conn (fst (snd (TcpConnection_Close c)))) = Suc (close_calls (Conn c)) \<and>
      closed (Conn (fst (snd (TcpConnection_Close c)))) \<and>
      (if BWriter c = [] \<or> (\<not> closed (Conn c) \<and> \<not> write_fails (Conn c))
       then sent (Conn (fst (snd (TcpConnection_Close c)))) = sent (Conn c) @ BWriter c \<and>
            snd (snd (TcpConnection_Close c)) = []
       else sent (Conn (fst (snd (TcpConnection_Close c)))) = sent (Conn c) \<and>
            length (snd (snd (TcpConnection_Close c))) = 1)) \<and>
   HttpConnection_Close h =
     ((if closed (conn h) then Some (Err ''use of closed network connection'') else None),
      h\<lparr>conn := (conn h)\<lparr>closed := True, close_calls := Suc (close_calls (conn h))\<rparr>\<rparr>)"
  by (simp add: TcpConnection_Close_def Flush_def Conn_Close_def Conn_Write_def Let_def
        HttpConnection_Close_def split: prod.splits option.splits)

theorem TcpConnection_Close_twice_witness:
  "alive \<lparr>Conn = \<lparr>closed = False, close_calls = 0, write_fails = True, sent = []\<rparr>,
          BWriter = ''bye'', alive = True\<rparr> \<and>
   fst (TcpConnection_Close (fst (snd (TcpConnection_Close
          \<lparr>Conn = \<lparr>closed = False, close_calls = 0, write_fails = True, sent = []\<rparr>,
           BWriter = ''bye'', alive = True\<rparr>)))) =
     Some (Err ''TcpConnection already closed'') \<and>
   close_calls (Conn (fst (snd (TcpConnection_Close
          \<lparr>Conn = \<lparr>closed = False, close_calls = 0, write_fails = True, sent = []\<rparr>,
           BWriter = ''bye'', alive = True\<rparr>)))) = 1 \<and>
   closed (Conn (fst (snd (TcpConnection_Close
          \<lparr>Conn = \<lparr>closed = False, close_calls = 0, write_fails = True, sent = []\<rparr>,
           BWriter = ''bye'', alive = True\<rparr>)))) \<and>
   length (snd (snd (TcpConnection_Close
          \<lparr>Conn = \<lparr>closed = False, close_calls = 0, write_fails = True, sent = []\<rparr>,
           BWriter = ''bye'', alive = True\<rparr>))) = 1"
  using TcpConnection_Close_twice
    [of "\<lparr>Conn = \<lparr>closed = False, close_calls = 0, write_fails = True, sent = []\<rparr>,
          BWriter = ''bye'', alive = True\<rparr>"]
  by simp

text \<open>
  The claim as stated fails for an \<open>HttpConnection\<close>: closed twice with a response still
  in its write buffer, its socket has had \<open>Close\<close> called twice and has been sent nothing.
\<close>

theorem HttpConnection_Close_twice_counterexample:
  "close_calls (conn (snd (HttpConnection_Close (snd (HttpConnection_Close
      \<lparr>conn = \<lparr>closed = False, close_calls = 0, write_fails = False, sent = []\<rparr>,
       HBWriter = ''HTTP/1.1 200 OK'', Service = ''docs''\<rparr>))))) = 2 \<and>
   sent (conn (snd (HttpConnection_Close (snd (HttpConnection_Close
      \<lparr>conn = \<lparr>closed = False, close_calls = 0, write_fails = False, sent = []\<rparr>,
       HBWriter = ''HTTP/1.1 200 OK'', Service = ''docs''\<rparr>))))) = [] \<and>
   fst (HttpConnection_Close (snd (HttpConnection_Close
      \<lparr>conn = \<lparr>closed = False, close_calls = 0, write_fails = False, sent = []\<rparr>,
       HBWriter = ''HTTP/1.1 200 OK'', Service = ''docs''\<rparr>))) =
     Some (Err ''use of closed network connection'')"
  by (simp add: HttpConnection_Close_def Conn_Close_def)

subsection \<open>The registries\<close>

text \<open>
  C9.  Making a service under a name that the service registry holds returns the
  duplicate-name error and leaves both registries as they were, and so does making a pool
  under a name the pool registry holds; in particular the second of two creations under one
  name fails so.  Making a service never changes the pool registry nor what making a pool
  returns, and the other way round: a pool can be made under the name of a service, and a
  service under the name of a pool.
\<close>

theorem registries_reject_duplicates:
  "(services g n \<noteq> None \<longrightarrow>
      NewService n g = (Inl (Err (''service '' @ quoted n @ '' already exists'')), g)) \<and>
   (pools g n \<noteq> None \<longrightarrow>
      NewPool n g = (Inl (Err (''pool '' @ quoted n @ '' already exists'')), g)) \<and>
   NewService n (snd (NewService n g)) =
     (Inl (Err (''service '' @ quoted n @ '' already exists'')), snd (NewService n g)) \<and>
   NewPool n (snd (NewPool n g)) =
     (Inl (Err (''pool '' @ quoted n @ '' already exists'')), snd (NewPool n g)) \<and>
   pools (snd (NewService n g)) = pools g \<and>
   services (snd (NewPool n g)) = services g \<and>
   fst (NewPool n (snd (NewService n g))) = fst (NewPool n g) \<and>
   fst (NewService n (snd (NewPool n g))) = fst (NewService n g) \<and>
   (pools g n = None \<longrightarrow> \<not> isl (fst (NewPool n (snd (NewService n g))))) \<and>
   (services g n = None \<longrightarrow> \<not> isl (fst (NewService n (snd (NewPool n g)))))"
  by (auto simp add: NewService_def NewPool_def Let_def split: option.splits)

theorem registries_reject_duplicates_witness:
  "services (snd (NewService ''a'' globals0)) ''a'' \<noteq> None \<and>
   NewService ''a'' (snd (NewService ''a'' globals0)) =
     (Inl (Err ''service 'a' already exists''), snd (NewService ''a'' globals0)) \<and>
   pools (snd (NewPool ''a'' globals0)) ''a'' \<noteq> None \<and>
   NewPool ''a'' (snd (NewPool ''a'' globals0)) =
     (Inl (Err ''pool 'a' already exists''), snd (NewPool ''a'' globals0)) \<and>
   pools globals0 ''a'' = None \<and>
   \<not> isl (fst (NewPool ''a'' (snd (NewService ''a'' globals0)))) \<and>
   services globals0 ''a'' = None \<and>
   \<not> isl (fst (NewService ''a'' (snd (NewPool ''a'' globals0))))"
proof -
  have s: "services (snd (NewService ''a'' globals0)) ''a'' \<noteq> None"
    and p: "pools (snd (NewPool ''a'' globals0)) ''a'' \<noteq> None"
    by (simp_all add: NewService_def NewPool_def globals0_def Let_def)
  have e: "pools globals0 ''a'' = None" "services globals0 ''a'' = None"
    by (simp_all add: globals0_def)
  from s p e
    registries_reject_duplicates [of "snd (NewService ''a'' globals0)" "''a''"]
    registries_reject_duplicates [of "snd (NewPool ''a'' globals0)" "''a''"]
    registries_reject_duplicates [of globals0 "''a''"]
  show ?thesis
    by (simp add: quoted_def)
qed

subsection \<open>Requests and the dispatch loop\<close>

lemma requestPump_loop_proxy:
  "Role s = ROLE_PROXY \<Longrightarrow>
   requestPump_loop ps s reqs =
     \<lparr>ended = Pump_waits, left = [], serving = [], delivered = []\<rparr>"
  by (induction reqs) simp_all

text \<open>
  C1 fails on the code.  \<open>NewService\<close> makes a service whose request queue is nil, so
  \<open>HandleRequest\<close> on it blocks forever and never returns ok.  And on a service in the
  reverse-proxy role that does have a queue, the dispatch loop takes every queued request,
  sends no response and starts no task that would send one.
\<close>

theorem HandleRequest_never_answered:
  "fst (NewService name \<lparr>services = Map.empty, pools = ps, goroutines = gs\<rparr>) =
     Inr \<lparr>Name = name, Enabled = False, Role = ROLE_WEBSERVER, Listeners = [],
          DocRoot = [], Pool = None, requestQueue = None\<rparr> \<and>
   HandleRequest
     \<lparr>Name = name, Enabled = False, Role = ROLE_WEBSERVER, Listeners = [],
      DocRoot = [], Pool = None, requestQueue = None\<rparr> c req rc = Blocks_forever \<and>
   requestPump ps
     (s\<lparr>Role := ROLE_PROXY, requestQueue := Some \<lparr>chan_cap = n, chan_buf = reqs\<rparr>\<rparr>) =
     \<lparr>ended = Pump_waits, left = [], serving = [], delivered = []\<rparr>"
proof (intro conjI)
  show "requestPump ps
          (s\<lparr>Role := ROLE_PROXY, requestQueue := Some \<lparr>chan_cap = n, chan_buf = reqs\<rparr>\<rparr>) =
        \<lparr>ended = Pump_waits, left = [], serving = [], delivered = []\<rparr>"
    by (simp add: requestPump_def requestPump_loop_proxy)
qed (simp_all add: NewService_def HandleRequest_def send_def Let_def)

text \<open>
  C4 fails on the code.  In the web-server role the dispatch loop takes the first request,
  starts \<open>serveFile\<close> for it and returns: every request behind it stays in the queue.
\<close>

theorem requestPump_webserver_returns:
  "requestPump ps
     (s\<lparr>Role := ROLE_WEBSERVER,
        requestQueue := Some \<lparr>chan_cap = n, chan_buf = r1 # r2 # rest\<rparr>\<rparr>) =
   \<lparr>ended = Pump_returned, left = r2 # rest, serving = [r1], delivered = []\<rparr>"
  by (simp add: requestPump_def)

subsection \<open>Backends\<close>

text \<open>C2 fails on the code: \<open>GetBackend\<close> returns nil for every pool.\<close>

theorem GetBackend_returns_nil:
  "GetBackend p = None"
  by (simp add: GetBackend_def)

lemma connect_step_same:
  "dialled (connect_step w ev) = dialled w \<and> backend (connect_step w ev) = backend w"
  by (cases ev) (simp_all add: Connect_def Connect_goroutine_def)

lemma connect_run_same:
  "dialled (connect_run evs w) = dialled w \<and> backend (connect_run evs w) = backend w"
  unfolding connect_run_def
  by (induction evs arbitrary: w) (simp_all add: connect_step_same)

text \<open>
  C5 fails on the code.  Whatever the order of the calls of \<open>Connect\<close> and of the
  goroutines they start, nothing is dialled and the backend stays as it was, so
  \<open>connecting\<close> stays nil; and two calls on a backend that is not connecting start two
  goroutines, the second call being no no-op.
\<close>

theorem Connect_never_dials:
  "dialled (connect_run evs w) = dialled w \<and>
   backend (connect_run evs w) = backend w \<and>
   started (connect_run [Call_Connect, Call_Connect]
     \<lparr>backend = \<lparr>Ipport = ''10.0.0.1:8080'', connecting = None, outstanding = 0,
                  generation = 1\<rparr>, started = 0, dialled = []\<rparr>) = 2 \<and>
   connect_run [Call_Connect, Call_Connect, Run_goroutine, Run_goroutine]
     \<lparr>backend = \<lparr>Ipport = ''10.0.0.1:8080'', connecting = None, outstanding = 0,
                  generation = 1\<rparr>, started = 0, dialled = []\<rparr> =
     \<lparr>backend = \<lparr>Ipport = ''10.0.0.1:8080'', connecting = None, outstanding = 0,
                  generation = 1\<rparr>, started = 0, dialled = []\<rparr>"
  using connect_run_same [of evs w]
  by (simp add: connect_run_def Connect_def Connect_goroutine_def)

subsection \<open>The node file\<close>

lemma Index_absent: "Index l c < 0 \<Longrightarrow> c \<notin> set l"
  by (induction l) (auto simp add: Let_def split: if_splits)

lemma Index_first: "0 \<le> Index l c \<Longrightarrow> c \<notin> set (take (nat (Index l c)) l)"
proof (induction l)
  case Nil
  then show ?case by simp
next
  case (Cons x xs)
  show ?case
  proof (cases "x = c")
    case True
    then show ?thesis by simp
  next
    case False
    with Cons.prems have nonneg: "0 \<le> Index xs c"
      by (simp add: Let_def split: if_splits)
    with False have "Index (x # xs) c = Index xs c + 1"
      by (simp add: Let_def)
    with nonneg have "take (nat (Index (x # xs) c)) (x # xs) = x # take (nat (Index xs c)) xs"
      by (simp add: nat_add_distrib)
    with Cons.IH [OF nonneg] False show ?thesis
      by simp
  qed
qed

text \<open>
  What does hold of every line: an address taken from it has at least seven bytes, holds
  no \<open>#\<close>, and starts the line as trimmed.
\<close>

lemma nodefile_address_Some:
  assumes "nodefile_address raw = Some a"
  shows "7 \<le> length a \<and> CHR ''#'' \<notin> set a \<and> prefix a (TrimSpace raw)"
  using assms Index_absent [of "TrimSpace raw" "CHR ''#''"]
    Index_first [of "TrimSpace raw" "CHR ''#''"]
  by (auto simp add: nodefile_address_def Let_def take_is_prefix split: if_splits)

text \<open>
  C6 fails on the code.  The line is trimmed before the comment is cut off, so the white
  space between the address and the \<open>#\<close> stays: the line \<open>10.0.0.1:8080 # comment\<close>
  gives the address \<open>10.0.0.1:8080\<close> followed by a space.  A blank line, a line that is
  only a comment and a line of fewer than seven bytes are skipped, as the claim says.
\<close>

theorem nodefile_comment_leaves_space:
  "nodefile_address (''10.0.0.1:8080 # comment'' @ [CHR 0x0A]) = Some ''10.0.0.1:8080 '' \<and>
   nodefile_address ''10.0.0.1:8080 # comment'' \<noteq> Some ''10.0.0.1:8080'' \<and>
   nodefile_address [CHR 0x0A] = None \<and>
   nodefile_address (''# a comment'' @ [CHR 0x0A]) = None \<and>
   nodefile_address (''1.2.3'' @ [CHR 0x0A]) = None"
  by code_simp

lemma refresh_Ipport:
  "refresh line newgen bs = Some bs' \<Longrightarrow> map Ipport bs' = map Ipport bs"
  by (induction bs arbitrary: bs') (auto split: if_splits option.splits)

lemma nodefile_line_prefix:
  "prefix (map Ipport bs) (map Ipport (nodefile_line newgen bs raw))"
  by (auto simp add: nodefile_line_def refresh_Ipport split: option.splits)

lemma nodefile_lines_prefix:
  "prefix (map Ipport bs) (map Ipport (foldl (nodefile_line newgen) bs ls))"
proof (induction ls arbitrary: bs)
  case Nil
  then show ?case by simp
next
  case (Cons l ls)
  have "prefix (map Ipport bs) (map Ipport (nodefile_line newgen bs l))"
    by (rule nodefile_line_prefix)
  also have "prefix \<dots> (map Ipport (foldl (nodefile_line newgen) (nodefile_line newgen bs l) ls))"
    by (rule Cons.IH)
  finally show ?case by simp
qed

lemma turn_keeps:
  "Pool_generation (fst (updateNodeFileWorker_turn env mtime p)) = Pool_generation p \<and>
   prefix (map Ipport (backends p))
     (map Ipport (backends (fst (updateNodeFileWorker_turn env mtime p))))"
  by (simp add: updateNodeFileWorker_turn_def Let_def nodefile_lines_prefix split: sum.splits)

lemma first_file:
  "foldl (nodefile_line 1) [] (ReadString_all (''10.0.0.1:8080'' @ [CHR 0x0A])) =
     [\<lparr>Ipport = ''10.0.0.1:8080'', connecting = None, outstanding = 0, generation = 1\<rparr>]"
  by code_simp

lemma second_file:
  "foldl (nodefile_line 1)
     [\<lparr>Ipport = ''10.0.0.1:8080'', connecting = None, outstanding = 0, generation = 1\<rparr>]
     (ReadString_all (''10.0.0.2:8080'' @ [CHR 0x0A])) =
     [\<lparr>Ipport = ''10.0.0.1:8080'', connecting = None, outstanding = 0, generation = 1\<rparr>,
      \<lparr>Ipport = ''10.0.0.2:8080'', connecting = None, outstanding = 0, generation = 1\<rparr>]"
  by code_simp

text \<open>
  C3 fails on the code.  A turn of the worker never changes the generation of the pool and
  never removes a backend: the addresses of the backends are kept, in their order, and new
  ones come behind.  On a new pool whose node file lists \<open>10.0.0.1:8080\<close>, the first pass
  makes that backend with generation 1 while the pool stays at generation 0; when the file
  then lists \<open>10.0.0.2:8080\<close> only, the second pass again works with generation 1, and
  the backend that left the file is still in the list.
\<close>

theorem updateNodeFileWorker_generation_never_stored:
  "Pool_generation (fst (updateNodeFileWorker_turn env mtime p)) = Pool_generation p \<and>
   prefix (map Ipport (backends p))
     (map Ipport (backends (fst (updateNodeFileWorker_turn env mtime p)))) \<and>
   updateNodeFileWorker_turn
     \<lparr>os_Stat = (\<lambda>f. Inr \<lparr>IsDir = False, ModTime = 1\<rparr>),
      os_Open = (\<lambda>f. Inr \<lparr>contents = ''10.0.0.1:8080'' @ [CHR 0x0A],
                            read_error_after = None\<rparr>),
      net_Listen = nl, net_Dial = nd\<rparr> 0
     \<lparr>Pool_Name = ''p'', backends = [], backendQueue = q, nodeFile = ''nodes'',
      Pool_generation = 0\<rparr> =
     (\<lparr>Pool_Name = ''p'',
       backends = [\<lparr>Ipport = ''10.0.0.1:8080'', connecting = None, outstanding = 0,
                    generation = 1\<rparr>],
       backendQueue = q, nodeFile = ''nodes'', Pool_generation = 0\<rparr>, 1, Slept) \<and>
   updateNodeFileWorker_turn
     \<lparr>os_Stat = (\<lambda>f. Inr \<lparr>IsDir = False, ModTime = 2\<rparr>),
      os_Open = (\<lambda>f. Inr \<lparr>contents = ''10.0.0.2:8080'' @ [CHR 0x0A],
                            read_error_after = None\<rparr>),
      net_Listen = nl, net_Dial = nd\<rparr> 1
     \<lparr>Pool_Name = ''p'',
      backends = [\<lparr>Ipport = ''10.0.0.1:8080'', connecting = None, outstanding = 0,
                   generation = 1\<rparr>],
      backendQueue = q, nodeFile = ''nodes'', Pool_generation = 0\<rparr> =
     (\<lparr>Pool_Name = ''p'',
       backends = [\<lparr>Ipport = ''10.0.0.1:8080'', connecting = None, outstanding = 0,
                    generation = 1\<rparr>,
                   \<lparr>Ipport = ''10.0.0.2:8080'', connecting = None, outstanding = 0,
                    generation = 1\<rparr>],
       backendQueue = q, nodeFile = ''nodes'', Pool_generation = 0\<rparr>, 2, Slept)"
proof (intro conjI)
  show "Pool_generation (fst (updateNodeFileWorker_turn env mtime p)) = Pool_generation p"
    using turn_keeps [of env mtime p] by (rule conjunct1)
  show "prefix (map Ipport (backends p))
          (map Ipport (backends (fst (updateNodeFileWorker_turn env mtime p))))"
    using turn_keeps [of env mtime p] by (rule conjunct2)
qed (use first_file second_file in
      \<open>simp_all add: updateNodeFileWorker_turn_def nodefile_lines_def\<close>)

subsection \<open>Changing the listen addresses\<close>

lemma Split_not_Nil: "Split v c \<noteq> []"
  by (induction v) (simp_all split: list.splits)

lemma update_unbound:
  "list_all unbound ls \<Longrightarrow>
   list_all unbound (AList.update k (Some \<lparr>Listener = None, Acceptor = a\<rparr>) ls) \<and>
   AList.update k (Some \<lparr>Listener = None, Acceptor = a\<rparr>) ls \<noteq> []"
  by (induction ls) (auto simp add: unbound_def)

lemma foldl_update_unbound:
  "list_all unbound ls \<Longrightarrow> xs \<noteq> [] \<or> ls \<noteq> [] \<Longrightarrow>
   list_all unbound
     (foldl (\<lambda>ls addr. AList.update (f addr) (Some \<lparr>Listener = None, Acceptor = a\<rparr>) ls)
        ls xs) \<and>
   foldl (\<lambda>ls addr. AList.update (f addr) (Some \<lparr>Listener = None, Acceptor = a\<rparr>) ls)
     ls xs \<noteq> []"
proof (induction xs arbitrary: ls)
  case Nil
  then show ?case by simp
next
  case (Cons x xs)
  from update_unbound [OF Cons.prems(1), of "f x" a]
  show ?case
    using Cons.IH [of "AList.update (f x) (Some \<lparr>Listener = None, Acceptor = a\<rparr>) ls"]
    by simp
qed

lemma setListen_close_unbound:
  "list_all unbound ls \<Longrightarrow> ls \<noteq> [] \<Longrightarrow> setListen_close ls = Inl Panic_nil_dereference"
  by (cases ls) (auto simp add: unbound_def TcpListener_Close_def split: option.splits)

lemma setListen_unbound:
  "list_all unbound (Listeners s) \<Longrightarrow> Listeners s \<noteq> [] \<Longrightarrow>
   setListen env v a s = Inl Panic_nil_dereference"
  by (simp add: setListen_def setListen_close_unbound)

lemma setListen_first:
  "Listeners s = [] \<Longrightarrow> \<not> Enabled s \<Longrightarrow>
   \<exists>ls. setListen env v a s = Inr (None, s\<lparr>Listeners := ls\<rparr>) \<and>
        list_all unbound ls \<and> ls \<noteq> []"
  using foldl_update_unbound [of "[]" "Split v (CHR '','')" TrimSpace a]
  by (auto simp add: setListen_def Split_not_Nil)

text \<open>
  C10 fails on the code.  On a service as \<open>NewService\<close> makes it, the first
  \<open>Set("listen", v1)\<close> returns nil and the second \<open>Set("listen", v2)\<close> panics with a
  nil dereference, whatever the two values are: \<open>setListen\<close> tests the entry of the map,
  not its \<open>Listener\<close> field, before calling \<open>Close\<close> on that field.
\<close>

theorem setListen_second_call_panics:
  "(case Service_Set env ps ''listen'' v1
           \<lparr>Name = name, Enabled = False, Role = ROLE_WEBSERVER, Listeners = [],
            DocRoot = [], Pool = None, requestQueue = None\<rparr> of
      Inl e \<Rightarrow> None
    | Inr (err, s) \<Rightarrow> Some (err, Service_Set env ps ''listen'' v2 s)) =
   Some (None, Inl Panic_nil_dereference)"
proof -
  let ?s = "\<lparr>Name = name, Enabled = False, Role = ROLE_WEBSERVER, Listeners = [],
            DocRoot = [], Pool = None, requestQueue = None\<rparr>"
  obtain ls
    where first: "setListen env v1 (Accept_of name) ?s = Inr (None, ?s\<lparr>Listeners := ls\<rparr>)"
      and ls: "list_all unbound ls" "ls \<noteq> []"
    using setListen_first [of ?s env v1 "Accept_of name"] by auto
  have "setListen env v2 (Accept_of name) (?s\<lparr>Listeners := ls\<rparr>) = Inl Panic_nil_dereference"
    using ls by (intro setListen_unbound) simp_all
  with first show ?thesis
    by (simp add: Service_Set_def)
qed

end
